theory Spec2Isabelle
  imports Main "HOL-Library.Word"
begin

unbundle bit_operations_syntax

section \<open>Data model\<close>

text \<open>
  The dynamic-fee transaction of \<^verbatim>\<open>x/evm/types/dynamic_fee_tx.go\<close> and the
  \<^verbatim>\<open>TxConfig\<close> record of the \<^verbatim>\<open>statedb\<close> package.

  \<^item> \<^verbatim>\<open>uint64\<close> is \<open>64 word\<close>; \<^verbatim>\<open>*big.Int\<close> and \<^verbatim>\<open>*sdk.Int\<close> are \<open>int option\<close>,
    \<open>None\<close> being the nil pointer. \<^verbatim>\<open>sdk.Int\<close> comes from the SDK, not from this
    repository; it is read, as the specification has it, as an arbitrary-precision
    integer into which a \<^verbatim>\<open>big.Int\<close> converts without loss. The limit that the SDK
    puts on the bit length of its integers is not part of the model.
  \<^item> A \<^verbatim>\<open>[]byte\<close> is, by content, a list of bytes: the nil slice and the empty slice
    both have the content \<open>[]\<close>. Where the backing storage matters (\<^verbatim>\<open>Copy\<close>), a
    slice is a reference into an explicit store, see the section on \<^verbatim>\<open>Copy\<close>.
  \<^item> The access-list types of both sides are opaque: \<open>'p\<close> is the repository's
    \<^verbatim>\<open>AccessTuple\<close>, \<open>'e\<close> is go-ethereum's. A nil access list is \<open>None\<close>.
\<close>

type_synonym byte = "8 word"
type_synonym bytes = "byte list"

text \<open>
  \<^verbatim>\<open>DynamicFeeTx\<close> (the struct is declared in generated code; its fields are the ones
  the source file reads and writes). The type parameter \<open>'b\<close> is the representation
  of a byte slice: \<open>bytes\<close> by content, a slice header where storage is modelled.
\<close>

record ('p, 'b) DynamicFeeTx =
  ChainID :: "int option"
  Nonce :: "64 word"
  GasTipCap :: "int option"
  GasFeeCap :: "int option"
  GasLimit :: "64 word"
  To :: string
  Amount :: "int option"
  Data :: 'b
  Accesses :: "'p list option"
  V :: 'b
  R :: 'b
  S :: 'b

text \<open>
  Errors: the registered root errors, and the wrappers \<^verbatim>\<open>sdkerrors.Wrap\<close> and
  \<^verbatim>\<open>sdkerrors.Wrapf\<close> (the latter with its format string and its integer argument).
\<close>

datatype error =
    ErrInvalidGasPrice
  | ErrInvalidAmount
  | ErrInvalidChainID
  | ErrInvalidAddress
  | Wrap error string
  | Wrapf error string int

section \<open>Arbitrary-precision integers\<close>

text \<open>\<^verbatim>\<open>sdk.NewIntFromBigInt\<close> and \<^verbatim>\<open>sdk.Int.BigInt\<close>: both keep the number.\<close>

definition NewIntFromBigInt :: "int \<Rightarrow> int" where
  "NewIntFromBigInt i = i"

definition BigInt :: "int \<Rightarrow> int" where
  "BigInt i = i"

text \<open>\<^verbatim>\<open>big.Int.Sign\<close>.\<close>

definition Sign :: "int \<Rightarrow> int" where
  "Sign x = (if x < 0 then - 1 else if x = 0 then 0 else 1)"

text \<open>
  \<^verbatim>\<open>big.Int.Bytes\<close>: the absolute value as a big-endian byte sequence without
  leading zeros (empty for zero). \<^verbatim>\<open>big.Int.SetBytes\<close>: the unsigned big-endian
  reading of a byte sequence.
\<close>

function natBytes :: "nat \<Rightarrow> bytes" where
  "natBytes n = (if n = 0 then [] else natBytes (n div 256) @ [of_nat (n mod 256)])"
  by pat_completeness auto
termination
  by (relation "measure id") auto

declare natBytes.simps [simp del]

definition Bytes :: "int \<Rightarrow> bytes" where
  "Bytes x = natBytes (nat \<bar>x\<bar>)"

definition bytesNat :: "bytes \<Rightarrow> nat" where
  "bytesNat bs = foldl (\<lambda>acc b. acc * 256 + unat b) 0 bs"

definition BigInt_SetBytes :: "bytes \<Rightarrow> int" where
  "BigInt_SetBytes bs = int (bytesNat bs)"

section \<open>Accessors\<close>

definition GetChainID :: "('p, 'b) DynamicFeeTx \<Rightarrow> int option" where
  "GetChainID tx = (case ChainID tx of None \<Rightarrow> None | Some c \<Rightarrow> Some (BigInt c))"

definition GetGas :: "('p, 'b) DynamicFeeTx \<Rightarrow> 64 word" where
  "GetGas tx = GasLimit tx"

definition GetGasTipCap :: "('p, 'b) DynamicFeeTx \<Rightarrow> int option" where
  "GetGasTipCap tx = (case GasTipCap tx of None \<Rightarrow> None | Some c \<Rightarrow> Some (BigInt c))"

definition GetGasFeeCap :: "('p, 'b) DynamicFeeTx \<Rightarrow> int option" where
  "GetGasFeeCap tx = (case GasFeeCap tx of None \<Rightarrow> None | Some c \<Rightarrow> Some (BigInt c))"

definition GetGasPrice :: "('p, 'b) DynamicFeeTx \<Rightarrow> int option" where
  "GetGasPrice tx = GetGasFeeCap tx"

definition GetValue :: "('p, 'b) DynamicFeeTx \<Rightarrow> int option" where
  "GetValue tx = (case Amount tx of None \<Rightarrow> None | Some a \<Rightarrow> Some (BigInt a))"

definition GetNonce :: "('p, 'b) DynamicFeeTx \<Rightarrow> 64 word" where
  "GetNonce tx = Nonce tx"

text \<open>\<^verbatim>\<open>GetData\<close> returns \<^verbatim>\<open>common.CopyBytes(tx.Data)\<close>: by content, the payload.\<close>

definition GetData :: "('p, bytes) DynamicFeeTx \<Rightarrow> bytes" where
  "GetData tx = Data tx"

section \<open>Signature values\<close>

text \<open>
  \<^verbatim>\<open>SetSignatureValues\<close> mutates the receiver; the model returns the updated
  transaction. Each of the four assignments is guarded by its own nil test.
\<close>

definition SetSignatureValues ::
  "('p, bytes) DynamicFeeTx \<Rightarrow> int option \<Rightarrow> int option \<Rightarrow> int option \<Rightarrow> int option
     \<Rightarrow> ('p, bytes) DynamicFeeTx" where
  "SetSignatureValues tx chainID v r s =
     (let tx1 = (case v of None \<Rightarrow> tx | Some x \<Rightarrow> tx\<lparr>V := Bytes x\<rparr>);
          tx2 = (case r of None \<Rightarrow> tx1 | Some x \<Rightarrow> tx1\<lparr>R := Bytes x\<rparr>);
          tx3 = (case s of None \<Rightarrow> tx2 | Some x \<Rightarrow> tx2\<lparr>S := Bytes x\<rparr>)
      in (case chainID of None \<Rightarrow> tx3
          | Some c \<Rightarrow> tx3\<lparr>ChainID := Some (NewIntFromBigInt c)\<rparr>))"

section \<open>Validation\<close>

text \<open>
  \<^verbatim>\<open>types.ValidateAddress\<close> belongs to another package of the repository; the
  specification names it as a consumed capability from strings to an error or nil. It
  is the parameter \<open>ValidateAddress\<close> of \<open>Validate\<close>.
\<close>

definition Validate ::
  "(string \<Rightarrow> error option) \<Rightarrow> ('p, 'b) DynamicFeeTx \<Rightarrow> error option" where
  "Validate ValidateAddress tx =
     (case GetGasPrice tx of
        None \<Rightarrow> Some (Wrap ErrInvalidGasPrice ''cannot be nil'')
      | Some gasPrice \<Rightarrow>
          if Sign gasPrice = - 1
          then Some (Wrapf ErrInvalidGasPrice ''gas price cannot be negative %s'' gasPrice)
          else
            (case (case GetValue tx of
                     None \<Rightarrow> None
                   | Some amount \<Rightarrow>
                       if Sign amount = - 1
                       then Some (Wrapf ErrInvalidAmount ''amount cannot be negative %s'' amount)
                       else None) of
               Some err \<Rightarrow> Some err
             | None \<Rightarrow>
                 (case (if To tx \<noteq> [] then ValidateAddress (To tx) else None) of
                    Some err \<Rightarrow> Some (Wrap err ''invalid to address'')
                  | None \<Rightarrow>
                      if GetChainID tx = None
                      then Some (Wrap ErrInvalidChainID
                                   ''chain ID must be present on AccessList txs'')
                      else None)))"

section \<open>Fee and cost\<close>

text \<open>
  Modelled from the spec: the helpers \<^verbatim>\<open>fee\<close> and \<^verbatim>\<open>cost\<close>, which \<^verbatim>\<open>Fee\<close> and
  \<^verbatim>\<open>Cost\<close> call, are not in the source file. The specification gives \<^verbatim>\<open>Fee()\<close> as
  gas price times gas limit in arbitrary precision, and \<^verbatim>\<open>Cost()\<close> as the fee plus
  the value, an absent value counting as zero. It says nothing of a nil gas price: there
  the model has no result (\<open>None\<close>).
\<close>

definition fee :: "int option \<Rightarrow> 64 word \<Rightarrow> int option" where
  "fee gasPrice gas =
     (case gasPrice of None \<Rightarrow> None | Some p \<Rightarrow> Some (p * uint gas))"

definition cost :: "int option \<Rightarrow> int option \<Rightarrow> int option" where
  "cost f val =
     (case f of
        None \<Rightarrow> None
      | Some x \<Rightarrow> (case val of None \<Rightarrow> Some x | Some a \<Rightarrow> Some (x + a)))"

definition Fee :: "('p, 'b) DynamicFeeTx \<Rightarrow> int option" where
  "Fee tx = fee (GetGasPrice tx) (GetGas tx)"

definition Cost :: "('p, 'b) DynamicFeeTx \<Rightarrow> int option" where
  "Cost tx = cost (Fee tx) (GetValue tx)"

section \<open>Execution context\<close>

text \<open>
  \<^verbatim>\<open>common.Hash\<close> is an array of 32 bytes, and \<^verbatim>\<open>common.Hash{}\<close> holds 32 zero
  bytes. Go's \<^verbatim>\<open>uint\<close> is taken at 64 bits.
\<close>

type_synonym hash = bytes

definition zeroHash :: hash where
  "zeroHash = replicate 32 0"

record TxConfig =
  BlockHash :: hash
  TxHash :: hash
  TxIndex :: "64 word"
  LogIndex :: "64 word"

definition NewTxConfig :: "hash \<Rightarrow> hash \<Rightarrow> 64 word \<Rightarrow> 64 word \<Rightarrow> TxConfig" where
  "NewTxConfig bhash thash txIndex logIndex =
     \<lparr>BlockHash = bhash, TxHash = thash, TxIndex = txIndex, LogIndex = logIndex\<rparr>"

definition NewEmptyTxConfig :: "hash \<Rightarrow> TxConfig" where
  "NewEmptyTxConfig bhash =
     \<lparr>BlockHash = bhash, TxHash = zeroHash, TxIndex = 0, LogIndex = 0\<rparr>"

section \<open>Hex strings and addresses\<close>

text \<open>
  go-ethereum's \<^verbatim>\<open>common.Address\<close> is an array of 20 bytes, here a list of bytes of
  length 20. A Go string is a sequence of bytes, here a \<open>string\<close>.

  \<^verbatim>\<open>encoding/hex\<close>: \<^verbatim>\<open>hextable\<close>, \<^verbatim>\<open>Encode\<close>, \<^verbatim>\<open>fromHexChar\<close>, and \<^verbatim>\<open>DecodeString\<close>
  as \<^verbatim>\<open>common.Hex2Bytes\<close> uses it: the error is dropped and the bytes decoded before
  the first invalid character are kept.
\<close>

type_synonym address = bytes

definition hextable :: string where
  "hextable = ''0123456789abcdef''"

definition hexEncode :: "bytes \<Rightarrow> string" where
  "hexEncode bs =
     concat (map (\<lambda>v. [hextable ! unat (drop_bit 4 v), hextable ! unat (v AND 15)]) bs)"

definition fromHexChar :: "char \<Rightarrow> byte option" where
  "fromHexChar c =
     (let n = (of_char c :: nat) in
      if 48 \<le> n \<and> n \<le> 57 then Some (of_nat (n - 48))
      else if 97 \<le> n \<and> n \<le> 102 then Some (of_nat (n - 97 + 10))
      else if 65 \<le> n \<and> n \<le> 70 then Some (of_nat (n - 65 + 10))
      else None)"

fun Hex2Bytes :: "string \<Rightarrow> bytes" where
  "Hex2Bytes (c # d # rest) =
     (case fromHexChar c of
        None \<Rightarrow> []
      | Some a \<Rightarrow>
          (case fromHexChar d of
             None \<Rightarrow> []
           | Some b \<Rightarrow> (push_bit 4 a OR b) # Hex2Bytes rest))"
| "Hex2Bytes _ = []"

fun has0xPrefix :: "string \<Rightarrow> bool" where
  "has0xPrefix (c # d # rest) = (c = CHR ''0'' \<and> (d = CHR ''x'' \<or> d = CHR ''X''))"
| "has0xPrefix _ = False"

definition FromHex :: "string \<Rightarrow> bytes" where
  "FromHex s =
     (let s1 = (if has0xPrefix s then drop 2 s else s);
          s2 = (if length s1 mod 2 = 1 then CHR ''0'' # s1 else s1)
      in Hex2Bytes s2)"

text \<open>
  \<^verbatim>\<open>Address.SetBytes\<close> on a zero address: a longer input is cropped from the left, a
  shorter one is written at the right end.
\<close>

definition AddressLength :: nat where
  "AddressLength = 20"

definition BytesToAddress :: "bytes \<Rightarrow> address" where
  "BytesToAddress b =
     (let b1 = (if length b > AddressLength then drop (length b - AddressLength) b else b)
      in replicate (AddressLength - length b1) 0 @ b1)"

definition HexToAddress :: "string \<Rightarrow> address" where
  "HexToAddress s = BytesToAddress (FromHex s)"

text \<open>
  \<^verbatim>\<open>Address.Hex\<close>: the lower-case hex string with the prefix \<^verbatim>\<open>0x\<close>, in which a
  letter is turned to upper case where the matching half-byte of the Keccak-256 digest
  of the lower-case digits is above 7. The digest function is the parameter
  \<open>Keccak256\<close>; it returns 32 bytes, of which the loop reads the first 20.
\<close>

definition checksumChar :: "bytes \<Rightarrow> nat \<Rightarrow> char \<Rightarrow> char" where
  "checksumChar hash k c =
     (let hashByte = hash ! (k div 2);
          hashByte = (if k mod 2 = 0 then drop_bit 4 hashByte else hashByte AND 15)
      in if (of_char c :: nat) > 57 \<and> hashByte > 7
         then char_of ((of_char c :: nat) - 32) else c)"

fun checksumFrom :: "bytes \<Rightarrow> nat \<Rightarrow> string \<Rightarrow> string" where
  "checksumFrom hash k [] = []"
| "checksumFrom hash k (c # cs) = checksumChar hash k c # checksumFrom hash (Suc k) cs"

definition Hex :: "(bytes \<Rightarrow> bytes) \<Rightarrow> address \<Rightarrow> string" where
  "Hex Keccak256 a =
     (let buf = hexEncode a;
          hash = Keccak256 (map (\<lambda>c. of_nat (of_char c)) buf)
      in ''0x'' @ checksumFrom hash 0 buf)"

text \<open>\<^verbatim>\<open>common.IsHexAddress\<close>, the syntax check for addresses.\<close>

definition isHexCharacter :: "char \<Rightarrow> bool" where
  "isHexCharacter c =
     (let n = (of_char c :: nat) in
      (48 \<le> n \<and> n \<le> 57) \<or> (97 \<le> n \<and> n \<le> 102) \<or> (65 \<le> n \<and> n \<le> 70))"

definition isHex :: "string \<Rightarrow> bool" where
  "isHex str = (if length str mod 2 \<noteq> 0 then False else list_all isHexCharacter str)"

definition IsHexAddress :: "string \<Rightarrow> bool" where
  "IsHexAddress s =
     (let s1 = (if has0xPrefix s then drop 2 s else s)
      in length s1 = 2 * AddressLength \<and> isHex s1)"

definition GetTo :: "('p, 'b) DynamicFeeTx \<Rightarrow> address option" where
  "GetTo tx = (if To tx = [] then None else Some (HexToAddress (To tx)))"

section \<open>Conversion from and to go-ethereum\<close>

text \<open>
  A \<^verbatim>\<open>*ethtypes.Transaction\<close> is read only through its accessors, so it is the record
  of what they return; a pointer or slice result may be nil. \<open>tx_V\<close>, \<open>tx_R\<close> and
  \<open>tx_S\<close> are the results of \<^verbatim>\<open>RawSignatureValues\<close>.
\<close>

record 'e Transaction =
  tx_Nonce :: "64 word"
  tx_Data :: bytes
  tx_Gas :: "64 word"
  tx_To :: "address option"
  tx_Value :: "int option"
  tx_GasFeeCap :: "int option"
  tx_GasTipCap :: "int option"
  tx_AccessList :: "'e list option"
  tx_ChainId :: "int option"
  tx_V :: "int option"
  tx_R :: "int option"
  tx_S :: "int option"

text \<open>go-ethereum's struct \<^verbatim>\<open>ethtypes.DynamicFeeTx\<close>, which \<^verbatim>\<open>AsEthereumData\<close> builds.\<close>

record 'e EthDynamicFeeTx =
  eth_ChainID :: "int option"
  eth_Nonce :: "64 word"
  eth_GasTipCap :: "int option"
  eth_GasFeeCap :: "int option"
  eth_Gas :: "64 word"
  eth_To :: "address option"
  eth_Value :: "int option"
  eth_Data :: bytes
  eth_AccessList :: "'e list option"
  eth_V :: "int option"
  eth_R :: "int option"
  eth_S :: "int option"

text \<open>
  \<^verbatim>\<open>NewAccessList\<close> and \<^verbatim>\<open>ToEthAccessList\<close> belong to another file of the package; the
  specification treats the access list as an opaque convertible type. Both conversions
  are parameters: \<open>NewAccessList\<close> from a go-ethereum list to the repository's,
  \<open>ToEthAccessList\<close> back, its result being a slice that may be nil. The source calls
  \<open>NewAccessList\<close> with a pointer that is not nil; its result there is taken to be a
  list that is not nil.
\<close>

definition newDynamicFeeTx ::
  "(bytes \<Rightarrow> bytes) \<Rightarrow> ('e list \<Rightarrow> 'p list) \<Rightarrow> 'e Transaction \<Rightarrow> ('p, bytes) DynamicFeeTx" where
  "newDynamicFeeTx Keccak256 NewAccessList tx =
     (let txData = \<lparr>ChainID = None, Nonce = tx_Nonce tx, GasTipCap = None, GasFeeCap = None,
                    GasLimit = tx_Gas tx, To = [], Amount = None, Data = tx_Data tx,
                    Accesses = None, V = [], R = [], S = []\<rparr>;
          txData = (case tx_To tx of
                      None \<Rightarrow> txData
                    | Some a \<Rightarrow> txData\<lparr>To := Hex Keccak256 a\<rparr>);
          txData = (case tx_Value tx of
                      None \<Rightarrow> txData
                    | Some x \<Rightarrow> txData\<lparr>Amount := Some (NewIntFromBigInt x)\<rparr>);
          txData = (case tx_GasFeeCap tx of
                      None \<Rightarrow> txData
                    | Some x \<Rightarrow> txData\<lparr>GasFeeCap := Some (NewIntFromBigInt x)\<rparr>);
          txData = (case tx_GasTipCap tx of
                      None \<Rightarrow> txData
                    | Some x \<Rightarrow> txData\<lparr>GasTipCap := Some (NewIntFromBigInt x)\<rparr>);
          txData = (case tx_AccessList tx of
                      None \<Rightarrow> txData
                    | Some al \<Rightarrow> txData\<lparr>Accesses := Some (NewAccessList al)\<rparr>)
      in SetSignatureValues txData (tx_ChainId tx) (tx_V tx) (tx_R tx) (tx_S tx))"

definition GetAccessList ::
  "('p list \<Rightarrow> 'e list option) \<Rightarrow> ('p, 'b) DynamicFeeTx \<Rightarrow> 'e list option" where
  "GetAccessList ToEthAccessList tx =
     (case Accesses tx of None \<Rightarrow> None | Some al \<Rightarrow> ToEthAccessList al)"

text \<open>
  Modelled from the spec: the helper \<^verbatim>\<open>rawSignatureValues\<close> is not in the source file.
  The specification has it parse the stored bytes back into arbitrary-precision
  integers, nil if the byte sequence is empty.
\<close>

definition rawSignatureValues ::
  "bytes \<Rightarrow> bytes \<Rightarrow> bytes \<Rightarrow> int option \<times> int option \<times> int option" where
  "rawSignatureValues vBz rBz sBz =
     (if vBz = [] then None else Some (BigInt_SetBytes vBz),
      if rBz = [] then None else Some (BigInt_SetBytes rBz),
      if sBz = [] then None else Some (BigInt_SetBytes sBz))"

definition GetRawSignatureValues ::
  "('p, bytes) DynamicFeeTx \<Rightarrow> int option \<times> int option \<times> int option" where
  "GetRawSignatureValues tx = rawSignatureValues (V tx) (R tx) (S tx)"

definition AsEthereumData ::
  "('p list \<Rightarrow> 'e list option) \<Rightarrow> ('p, bytes) DynamicFeeTx \<Rightarrow> 'e EthDynamicFeeTx" where
  "AsEthereumData ToEthAccessList tx =
     (case GetRawSignatureValues tx of
        (v, r, s) \<Rightarrow>
          \<lparr>eth_ChainID = GetChainID tx, eth_Nonce = GetNonce tx,
           eth_GasTipCap = GetGasTipCap tx, eth_GasFeeCap = GetGasFeeCap tx,
           eth_Gas = GetGas tx, eth_To = GetTo tx, eth_Value = GetValue tx,
           eth_Data = GetData tx, eth_AccessList = GetAccessList ToEthAccessList tx,
           eth_V = v, eth_R = r, eth_S = s\<rparr>)"

text \<open>
  \<^verbatim>\<open>ethtypes.NewTx\<close> is the way from a transaction-data struct to a
  \<^verbatim>\<open>*ethtypes.Transaction\<close>. It stores a deep copy of its argument, and the copy of a
  \<^verbatim>\<open>DynamicFeeTx\<close> initialises every field: an absent integer becomes zero, the access
  list becomes a list of the same length and elements that is not nil. The accessors of
  the transaction return the fields of that copy.
\<close>

definition orZero :: "int option \<Rightarrow> int" where
  "orZero x = (case x of None \<Rightarrow> 0 | Some i \<Rightarrow> i)"

definition NewTx :: "'e EthDynamicFeeTx \<Rightarrow> 'e Transaction" where
  "NewTx inner =
     \<lparr>tx_Nonce = eth_Nonce inner, tx_Data = eth_Data inner, tx_Gas = eth_Gas inner,
      tx_To = eth_To inner, tx_Value = Some (orZero (eth_Value inner)),
      tx_GasFeeCap = Some (orZero (eth_GasFeeCap inner)),
      tx_GasTipCap = Some (orZero (eth_GasTipCap inner)),
      tx_AccessList = Some (case eth_AccessList inner of None \<Rightarrow> [] | Some al \<Rightarrow> al),
      tx_ChainId = Some (orZero (eth_ChainID inner)),
      tx_V = Some (orZero (eth_V inner)), tx_R = Some (orZero (eth_R inner)),
      tx_S = Some (orZero (eth_S inner))\<rparr>"

section \<open>Copy and the backing storage of byte slices\<close>

text \<open>
  For \<^verbatim>\<open>Copy\<close> the storage behind a byte slice matters. The store is the list of the
  byte arrays allocated so far, an array being named by its position. A slice that is
  not nil names an array, an offset into it and a length (the capacity plays no role
  here). Two slices share storage when they name the same array.
\<close>

datatype slice = NilSlice | Slice nat nat nat

type_synonym store = "bytes list"

fun content :: "store \<Rightarrow> slice \<Rightarrow> bytes" where
  "content h NilSlice = []"
| "content h (Slice a off n) = take n (drop off (h ! a))"

text \<open>A slice of a running program lies inside an allocated array.\<close>

fun valid :: "store \<Rightarrow> slice \<Rightarrow> bool" where
  "valid h NilSlice = True"
| "valid h (Slice a off n) = (a < length h \<and> off + n \<le> length (h ! a))"

text \<open>\<^verbatim>\<open>make([]byte, n)\<close> allocates a new zeroed array.\<close>

definition make :: "store \<Rightarrow> nat \<Rightarrow> store \<times> slice" where
  "make h n = (h @ [replicate n 0], Slice (length h) 0 n)"

text \<open>
  The builtin \<^verbatim>\<open>copy(dst, src)\<close> writes the first \<open>min (len dst) (len src)\<close> bytes
  of \<open>src\<close> over the beginning of \<open>dst\<close>.
\<close>

fun copyInto :: "store \<Rightarrow> slice \<Rightarrow> slice \<Rightarrow> store" where
  "copyInto h NilSlice src = h"
| "copyInto h (Slice a off n) src =
     (let m = min n (length (content h src))
      in h[a := take off (h ! a) @ take m (content h src) @ drop (off + m) (h ! a)])"

text \<open>\<^verbatim>\<open>common.CopyBytes\<close>: nil for nil, otherwise a new array with the same bytes.\<close>

fun lenSlice :: "slice \<Rightarrow> nat" where
  "lenSlice NilSlice = 0"
| "lenSlice (Slice a off n) = n"

definition CopyBytes :: "store \<Rightarrow> slice \<Rightarrow> store \<times> slice" where
  "CopyBytes h b =
     (if b = NilSlice then (h, NilSlice)
      else (case make h (lenSlice b) of
              (h1, copiedBytes) \<Rightarrow> (copyInto h1 copiedBytes b, copiedBytes)))"

text \<open>
  \<^verbatim>\<open>Copy\<close>: the integer pointers, the strings and the access list are taken over as
  they are, the four byte slices go through \<^verbatim>\<open>CopyBytes\<close>, in the order of the struct
  literal.
\<close>

definition Copy ::
  "store \<Rightarrow> ('p, slice) DynamicFeeTx \<Rightarrow> store \<times> ('p, slice) DynamicFeeTx" where
  "Copy h tx =
     (case CopyBytes h (Data tx) of (h1, d) \<Rightarrow>
      case CopyBytes h1 (V tx) of (h2, v) \<Rightarrow>
      case CopyBytes h2 (R tx) of (h3, r) \<Rightarrow>
      case CopyBytes h3 (S tx) of (h4, s) \<Rightarrow>
        (h4, \<lparr>ChainID = ChainID tx, Nonce = Nonce tx, GasTipCap = GasTipCap tx,
              GasFeeCap = GasFeeCap tx, GasLimit = GasLimit tx, To = To tx,
              Amount = Amount tx, Data = d, Accesses = Accesses tx,
              V = v, R = r, S = s\<rparr>))"

text \<open>
  The assignment \<^verbatim>\<open>b[i] = x\<close> through a slice; an index out of range panics
  (\<open>None\<close>).
\<close>

fun setByte :: "store \<Rightarrow> slice \<Rightarrow> nat \<Rightarrow> byte \<Rightarrow> store option" where
  "setByte h NilSlice i x = None"
| "setByte h (Slice a off n) i x =
     (if i < n then Some (h[a := (h ! a)[off + i := x]]) else None)"

text \<open>The transaction as its fields read in a store: every byte slice by content.\<close>

definition contentTx :: "store \<Rightarrow> ('p, slice) DynamicFeeTx \<Rightarrow> ('p, bytes) DynamicFeeTx" where
  "contentTx h tx =
     \<lparr>ChainID = ChainID tx, Nonce = Nonce tx, GasTipCap = GasTipCap tx,
      GasFeeCap = GasFeeCap tx, GasLimit = GasLimit tx, To = To tx, Amount = Amount tx,
      Data = content h (Data tx), Accesses = Accesses tx, V = content h (V tx),
      R = content h (R tx), S = content h (S tx)\<rparr>"

definition validTx :: "store \<Rightarrow> ('p, slice) DynamicFeeTx \<Rightarrow> bool" where
  "validTx h tx = (valid h (Data tx) \<and> valid h (V tx) \<and> valid h (R tx) \<and> valid h (S tx))"

text \<open>A slice is fresh for a store when it is nil or names an array allocated later.\<close>

fun fresh :: "store \<Rightarrow> slice \<Rightarrow> bool" where
  "fresh h NilSlice = True"
| "fresh h (Slice a off n) = (length h \<le> a)"

section \<open>Concrete transactions\<close>

text \<open>The transaction of the fee and cost example, also the base of other examples.\<close>

definition exampleTx :: "(nat, bytes) DynamicFeeTx" where
  "exampleTx =
     \<lparr>ChainID = Some 9000, Nonce = 0, GasTipCap = Some 1, GasFeeCap = Some 100,
      GasLimit = 21000, To = [], Amount = Some 1000, Data = [], Accesses = None,
      V = [], R = [], S = []\<rparr>"

text \<open>A validator for the examples: it accepts what \<^verbatim>\<open>common.IsHexAddress\<close> accepts.\<close>

definition checkHexAddress :: "string \<Rightarrow> error option" where
  "checkHexAddress s = (if IsHexAddress s then None else Some ErrInvalidAddress)"

text \<open>
  Parameters for the examples: a digest function with a constant digest, and access
  lists that are the same on both sides.
\<close>

definition zeroDigest :: "bytes \<Rightarrow> bytes" where
  "zeroDigest b = replicate 32 0"

definition sameAccessList :: "nat list \<Rightarrow> nat list" where
  "sameAccessList al = al"

definition someAccessList :: "nat list \<Rightarrow> nat list option" where
  "someAccessList al = Some al"

text \<open>
  go-ethereum transactions: one with every field present, one whose access list is nil
  (as for a transaction decoded from JSON without the optional access list, or a legacy
  transaction), one whose value is nil, and one with everything that can be absent
  absent.
\<close>

definition fullEthTx :: "nat Transaction" where
  "fullEthTx =
     \<lparr>tx_Nonce = 7, tx_Data = [1, 2], tx_Gas = 21000,
      tx_To = Some (replicate 19 0 @ [171]), tx_Value = Some 1000,
      tx_GasFeeCap = Some 100, tx_GasTipCap = Some 2, tx_AccessList = Some [5, 6],
      tx_ChainId = Some 9000, tx_V = Some 1, tx_R = Some 258, tx_S = Some 0\<rparr>"

definition nilAccessListEthTx :: "nat Transaction" where
  "nilAccessListEthTx = fullEthTx\<lparr>tx_AccessList := None\<rparr>"

definition nilValueEthTx :: "nat Transaction" where
  "nilValueEthTx = fullEthTx\<lparr>tx_Value := None\<rparr>"

definition absentEthTx :: "nat Transaction" where
  "absentEthTx =
     \<lparr>tx_Nonce = 7, tx_Data = [], tx_Gas = 21000, tx_To = None, tx_Value = None,
      tx_GasFeeCap = None, tx_GasTipCap = None, tx_AccessList = None,
      tx_ChainId = None, tx_V = None, tx_R = None, tx_S = None\<rparr>"

text \<open>
  A store with two arrays and a transaction whose payload and \<open>S\<close> lie in the same
  array; the store and the clone that \<open>Copy\<close> returns for them; the stores after a
  write through the clone's payload and after a write through the original's.
\<close>

definition copyStore :: store where
  "copyStore = [[1, 2, 3], [4, 5]]"

definition copyTx :: "(nat, slice) DynamicFeeTx" where
  "copyTx =
     \<lparr>ChainID = Some 9000, Nonce = 7, GasTipCap = Some 1, GasFeeCap = Some 100,
      GasLimit = 21000, To = [], Amount = None, Data = Slice 0 1 2, Accesses = None,
      V = Slice 1 0 2, R = NilSlice, S = Slice 0 0 1\<rparr>"

definition copiedStore :: store where
  "copiedStore = [[1, 2, 3], [4, 5], [2, 3], [4, 5], [1]]"

definition copyClone :: "(nat, slice) DynamicFeeTx" where
  "copyClone = copyTx\<lparr>Data := Slice 2 0 2, V := Slice 3 0 2, S := Slice 4 0 1\<rparr>"

definition cloneWrittenStore :: store where
  "cloneWrittenStore = [[1, 2, 3], [4, 5], [2, 255], [4, 5], [1]]"

definition originalWrittenStore :: store where
  "originalWrittenStore = [[1, 9, 3], [4, 5], [2, 3], [4, 5], [1]]"

section \<open>Properties of validation, fees and signature values\<close>

lemma Sign_negative [simp]: "(Sign x = - 1) = (x < 0)"
  by (simp add: Sign_def)

text \<open>
  C2. \<open>Validate\<close> applies five checks in order, the first failure deciding the result:
  a nil fee cap and a negative fee cap give an invalid-gas-price error, a present
  negative amount gives an invalid-amount error, a non-empty \<open>To\<close> that the address
  validator rejects gives the validator's error wrapped as invalid to address, a nil
  chain ID gives an invalid-chain-id error; there is no error exactly when all five
  checks pass.
\<close>

theorem Validate_five_checks:
  "(GasFeeCap tx = None \<longrightarrow>
      Validate va tx = Some (Wrap ErrInvalidGasPrice ''cannot be nil''))
   \<and> (GasFeeCap tx = Some p \<and> p < 0 \<longrightarrow>
      Validate va tx = Some (Wrapf ErrInvalidGasPrice ''gas price cannot be negative %s'' p))
   \<and> (GasFeeCap tx = Some p \<and> 0 \<le> p \<and> Amount tx = Some a \<and> a < 0 \<longrightarrow>
      Validate va tx = Some (Wrapf ErrInvalidAmount ''amount cannot be negative %s'' a))
   \<and> (GasFeeCap tx = Some p \<and> 0 \<le> p \<and> (\<forall>x. Amount tx = Some x \<longrightarrow> 0 \<le> x)
        \<and> To tx \<noteq> [] \<and> va (To tx) = Some err \<longrightarrow>
      Validate va tx = Some (Wrap err ''invalid to address''))
   \<and> (GasFeeCap tx = Some p \<and> 0 \<le> p \<and> (\<forall>x. Amount tx = Some x \<longrightarrow> 0 \<le> x)
        \<and> (To tx = [] \<or> va (To tx) = None) \<and> ChainID tx = None \<longrightarrow>
      Validate va tx
        = Some (Wrap ErrInvalidChainID ''chain ID must be present on AccessList txs''))
   \<and> (Validate va tx = None) =
       ((\<exists>x. GasFeeCap tx = Some x \<and> 0 \<le> x) \<and> (\<forall>x. Amount tx = Some x \<longrightarrow> 0 \<le> x)
        \<and> (To tx = [] \<or> va (To tx) = None) \<and> ChainID tx \<noteq> None)"
  by (auto simp add: Validate_def GetGasPrice_def GetGasFeeCap_def GetValue_def GetChainID_def
      BigInt_def split: option.splits)

text \<open>
  The six cases of C2 on concrete transactions: nil and negative fee cap, negative
  amount, malformed recipient, missing chain ID, and a transaction that passes.
\<close>

theorem Validate_five_checks_witness:
  "Validate checkHexAddress (exampleTx\<lparr>GasFeeCap := None\<rparr>)
     = Some (Wrap ErrInvalidGasPrice ''cannot be nil'')
   \<and> Validate checkHexAddress (exampleTx\<lparr>GasFeeCap := Some (- 1)\<rparr>)
     = Some (Wrapf ErrInvalidGasPrice ''gas price cannot be negative %s'' (- 1))
   \<and> Validate checkHexAddress (exampleTx\<lparr>GasFeeCap := Some 0, Amount := Some (- 5)\<rparr>)
     = Some (Wrapf ErrInvalidAmount ''amount cannot be negative %s'' (- 5))
   \<and> Validate checkHexAddress (exampleTx\<lparr>To := ''not-an-address''\<rparr>)
     = Some (Wrap ErrInvalidAddress ''invalid to address'')
   \<and> Validate checkHexAddress (exampleTx\<lparr>ChainID := None\<rparr>)
     = Some (Wrap ErrInvalidChainID ''chain ID must be present on AccessList txs'')
   \<and> Validate checkHexAddress exampleTx = None"
  using
    Validate_five_checks [where tx = "exampleTx\<lparr>GasFeeCap := None\<rparr>" and va = checkHexAddress]
    Validate_five_checks [where tx = "exampleTx\<lparr>GasFeeCap := Some (- 1)\<rparr>"
      and va = checkHexAddress and p = "- 1"]
    Validate_five_checks [where tx = "exampleTx\<lparr>GasFeeCap := Some 0, Amount := Some (- 5)\<rparr>"
      and va = checkHexAddress and p = 0 and a = "- 5"]
    Validate_five_checks [where tx = "exampleTx\<lparr>To := ''not-an-address''\<rparr>"
      and va = checkHexAddress and p = 100 and err = ErrInvalidAddress]
    Validate_five_checks [where tx = "exampleTx\<lparr>ChainID := None\<rparr>"
      and va = checkHexAddress and p = 100]
    Validate_five_checks [where tx = exampleTx and va = checkHexAddress]
  by (simp add: exampleTx_def checkHexAddress_def IsHexAddress_def isHex_def AddressLength_def)

text \<open>
  C3. \<open>Fee\<close> is the fee cap times the gas limit, as unbounded integers, and \<open>Cost\<close> is
  \<open>Fee\<close> plus the amount, a nil amount counting as zero. With fee cap 100, gas limit
  21000 and amount 1000 the fee is 2100000 and the cost 2101000; with a nil amount the
  cost is the fee.
\<close>

theorem Fee_Cost_arithmetic:
  "(GasFeeCap tx = Some p \<longrightarrow>
      Fee tx = Some (p * uint (GasLimit tx))
      \<and> Cost tx = Some (p * uint (GasLimit tx) + (case Amount tx of None \<Rightarrow> 0 | Some a \<Rightarrow> a)))
   \<and> (Amount tx = None \<longrightarrow> Cost tx = Fee tx)
   \<and> Fee exampleTx = Some 2100000
   \<and> Cost exampleTx = Some 2101000
   \<and> Cost (exampleTx\<lparr>Amount := None\<rparr>) = Fee (exampleTx\<lparr>Amount := None\<rparr>)"
  by (simp add: Fee_def Cost_def fee_def cost_def GetGasPrice_def GetGasFeeCap_def GetGas_def
      GetValue_def BigInt_def exampleTx_def split: option.splits)

text \<open>The general part of C3 at the example transaction, with and without amount.\<close>

theorem Fee_Cost_arithmetic_witness:
  "GasFeeCap exampleTx = Some 100
   \<and> Fee exampleTx = Some (100 * 21000)
   \<and> Cost exampleTx = Some (100 * 21000 + 1000)
   \<and> Amount (exampleTx\<lparr>Amount := None\<rparr>) = None
   \<and> Cost (exampleTx\<lparr>Amount := None\<rparr>) = Fee (exampleTx\<lparr>Amount := None\<rparr>)"
  using Fee_Cost_arithmetic [of exampleTx 100]
    Fee_Cost_arithmetic [of "exampleTx\<lparr>Amount := None\<rparr>" 100]
  by (simp add: exampleTx_def)

text \<open>
  C4. \<open>SetSignatureValues\<close> writes \<open>V\<close>, \<open>R\<close>, \<open>S\<close> and \<open>ChainID\<close> each only for an
  argument that is not nil, and changes nothing else. Setting the signature with a nil
  chain ID and then the chain ID with a nil signature is the same as setting all four at
  once: the result holds the signature of the first call and the chain ID of the second.
\<close>

theorem SetSignatureValues_partial:
  "V (SetSignatureValues tx c v r s) = (case v of None \<Rightarrow> V tx | Some x \<Rightarrow> Bytes x)
   \<and> R (SetSignatureValues tx c v r s) = (case r of None \<Rightarrow> R tx | Some x \<Rightarrow> Bytes x)
   \<and> S (SetSignatureValues tx c v r s) = (case s of None \<Rightarrow> S tx | Some x \<Rightarrow> Bytes x)
   \<and> ChainID (SetSignatureValues tx c v r s) = (case c of None \<Rightarrow> ChainID tx | Some x \<Rightarrow> Some x)
   \<and> SetSignatureValues tx c v r s
       = tx\<lparr>V := V (SetSignatureValues tx c v r s), R := R (SetSignatureValues tx c v r s),
            S := S (SetSignatureValues tx c v r s),
            ChainID := ChainID (SetSignatureValues tx c v r s)\<rparr>
   \<and> SetSignatureValues tx None None None None = tx
   \<and> SetSignatureValues (SetSignatureValues tx None v r s) c None None None
       = SetSignatureValues tx c v r s
   \<and> V (SetSignatureValues (SetSignatureValues tx None (Some v') (Some r') (Some s'))
           (Some c') None None None) = Bytes v'
   \<and> R (SetSignatureValues (SetSignatureValues tx None (Some v') (Some r') (Some s'))
           (Some c') None None None) = Bytes r'
   \<and> S (SetSignatureValues (SetSignatureValues tx None (Some v') (Some r') (Some s'))
           (Some c') None None None) = Bytes s'
   \<and> ChainID (SetSignatureValues (SetSignatureValues tx None (Some v') (Some r') (Some s'))
           (Some c') None None None) = Some c'"
  by (simp add: SetSignatureValues_def NewIntFromBigInt_def split: option.splits)

text \<open>
  C7. \<open>GetGasPrice\<close> returns what \<open>GetGasFeeCap\<close> returns, on every transaction; both
  are nil exactly when the fee-cap field is nil.
\<close>

theorem GetGasPrice_is_GetGasFeeCap:
  "GetGasPrice tx = GetGasFeeCap tx
   \<and> (GetGasPrice tx = None) = (GasFeeCap tx = None)
   \<and> (GetGasFeeCap tx = None) = (GasFeeCap tx = None)"
  by (simp add: GetGasPrice_def GetGasFeeCap_def split: option.splits)

text \<open>
  C8. For every block hash \<open>b\<close>, \<open>NewEmptyTxConfig b\<close> has block hash \<open>b\<close>, the
  all-zero transaction hash, and transaction index and log index 0.
\<close>

theorem NewEmptyTxConfig_fields:
  "BlockHash (NewEmptyTxConfig b) = b
   \<and> TxHash (NewEmptyTxConfig b) = replicate 32 0
   \<and> TxIndex (NewEmptyTxConfig b) = 0
   \<and> LogIndex (NewEmptyTxConfig b) = 0"
  by (simp add: NewEmptyTxConfig_def zeroHash_def)

text \<open>
  C9. \<open>Validate\<close> does not read \<open>GasTipCap\<close>: its result is the same for every value
  of that field. So a transaction with a fee cap that is present and not negative, an
  amount that is nil or not negative, a \<open>To\<close> that is empty or accepted by the
  validator, and a chain ID, passes for every tip cap.
\<close>

theorem Validate_ignores_GasTipCap:
  "Validate va (tx\<lparr>GasTipCap := g\<rparr>) = Validate va tx
   \<and> (GasFeeCap tx = Some p \<and> 0 \<le> p \<and> (\<forall>x. Amount tx = Some x \<longrightarrow> 0 \<le> x)
        \<and> (To tx = [] \<or> va (To tx) = None) \<and> ChainID tx \<noteq> None \<longrightarrow>
      Validate va (tx\<lparr>GasTipCap := g\<rparr>) = None)"
  by (auto simp add: Validate_def GetGasPrice_def GetGasFeeCap_def GetValue_def GetChainID_def
      BigInt_def split: option.splits)

text \<open>C9 on the example transaction: a negative tip cap, and one above the fee cap.\<close>

theorem Validate_ignores_GasTipCap_witness:
  "GasFeeCap exampleTx = Some 100
   \<and> Validate checkHexAddress (exampleTx\<lparr>GasTipCap := Some (- 3)\<rparr>) = None
   \<and> Validate checkHexAddress (exampleTx\<lparr>GasTipCap := Some 101\<rparr>) = None
   \<and> Validate checkHexAddress (exampleTx\<lparr>GasTipCap := None\<rparr>) = None"
proof -
  have h: "GasFeeCap exampleTx = Some 100" "Amount exampleTx = Some 1000"
    "To exampleTx = []" "ChainID exampleTx = Some 9000"
    by (simp_all add: exampleTx_def)
  show ?thesis
    using h
      Validate_ignores_GasTipCap [where tx = exampleTx and va = checkHexAddress and p = 100
        and g = "Some (- 3)", THEN conjunct2]
      Validate_ignores_GasTipCap [where tx = exampleTx and va = checkHexAddress and p = 100
        and g = "Some 101", THEN conjunct2]
      Validate_ignores_GasTipCap [where tx = exampleTx and va = checkHexAddress and p = 100
        and g = None, THEN conjunct2]
    by simp
qed

section \<open>Hex strings and addresses: decoding what was encoded\<close>

lemma nibble_cases: "n < 16 \<Longrightarrow> n \<in> {0,1,2,3,4,5,6,7,8,9,10,11,12,13,14,15::nat}"
  by (simp) arith

lemma fromHexChar_hextable: "n < 16 \<Longrightarrow> fromHexChar (hextable ! n) = Some (of_nat n)"
  by (drule nibble_cases) (auto simp add: fromHexChar_def hextable_def)

lemma fromHexChar_upper:
  "n < 16 \<Longrightarrow> (of_char (hextable ! n) :: nat) > 57 \<Longrightarrow>
   fromHexChar (char_of ((of_char (hextable ! n) :: nat) - 32)) = Some (of_nat n)"
  by (drule nibble_cases) (auto simp add: fromHexChar_def hextable_def)

lemma hi_nibble_bound: "unat (drop_bit 4 (v :: byte)) < 16"
proof -
  have "unat v < 256" using unsigned_less [of v] by simp
  then have "unat v div 16 < 16" by arith
  then show ?thesis by (simp add: drop_bit_eq_div unat_div)
qed

lemma lo_nibble_bound: "unat ((v :: byte) AND 15) < 16"
proof -
  have "unat (v AND 15) \<le> unat (15 :: byte)"
    by (rule word_and_le1 [THEN word_le_nat_alt [THEN iffD1]])
  then show ?thesis by simp
qed

lemma nibbles_join: "push_bit 4 (drop_bit 4 (v :: byte)) OR (v AND 15) = v"
proof -
  have m: "(15 :: byte) = mask 4" by (simp add: mask_eq_exp_minus_1)
  show ?thesis
    unfolding m by (rule bit_eqI) (auto simp add: bit_simps)
qed

lemma fromHexChar_checksum:
  "n < 16 \<Longrightarrow> fromHexChar (checksumChar hash k (hextable ! n)) = Some (of_nat n)"
  by (simp add: checksumChar_def Let_def fromHexChar_hextable fromHexChar_upper)

lemma Hex2Bytes_checksum_hexEncode:
  "Hex2Bytes (checksumFrom hash k (hexEncode bs)) = bs"
proof (induction bs arbitrary: k)
  case Nil
  then show ?case by (simp add: hexEncode_def)
next
  case (Cons v bs)
  have e: "hexEncode (v # bs)
           = (hextable ! unat (drop_bit 4 v)) # (hextable ! unat (v AND 15)) # hexEncode bs"
    by (simp add: hexEncode_def)
  show ?case
    unfolding e
    using Cons.IH [of "Suc (Suc k)"] nibbles_join [of v]
    by (simp add: fromHexChar_checksum hi_nibble_bound lo_nibble_bound)
qed

lemma length_hexEncode: "length (hexEncode bs) = 2 * length bs"
  by (induction bs) (simp_all add: hexEncode_def)

lemma length_checksumFrom: "length (checksumFrom hash k s) = length s"
  by (induction s arbitrary: k) simp_all

lemma length_BytesToAddress: "length (BytesToAddress b) = 20"
  by (simp add: BytesToAddress_def AddressLength_def Let_def)

lemma BytesToAddress_id: "length a = 20 \<Longrightarrow> BytesToAddress a = a"
  by (simp add: BytesToAddress_def AddressLength_def)

lemma HexToAddress_Hex: "length a = 20 \<Longrightarrow> HexToAddress (Hex K a) = a"
  by (simp add: HexToAddress_def Hex_def FromHex_def Let_def length_checksumFrom
      length_hexEncode Hex2Bytes_checksum_hexEncode BytesToAddress_id)

lemma Hex_not_empty: "Hex K a \<noteq> []"
  by (simp add: Hex_def Let_def)


section \<open>The conversions in explicit form\<close>

lemma SetSignatureValues_explicit:
  "SetSignatureValues tx c v r s =
     tx\<lparr>V := (case v of None \<Rightarrow> V tx | Some x \<Rightarrow> Bytes x),
        R := (case r of None \<Rightarrow> R tx | Some x \<Rightarrow> Bytes x),
        S := (case s of None \<Rightarrow> S tx | Some x \<Rightarrow> Bytes x),
        ChainID := (case c of None \<Rightarrow> ChainID tx | Some x \<Rightarrow> Some x)\<rparr>"
  by (simp add: SetSignatureValues_def NewIntFromBigInt_def split: option.splits)

lemma guarded_To:
  "(case x of None \<Rightarrow> t | Some a \<Rightarrow> t\<lparr>To := g a\<rparr>)
   = t\<lparr>To := (case x of None \<Rightarrow> To t | Some a \<Rightarrow> g a)\<rparr>"
  by (cases x) simp_all

lemma guarded_Amount:
  "(case x of None \<Rightarrow> t | Some a \<Rightarrow> t\<lparr>Amount := g a\<rparr>)
   = t\<lparr>Amount := (case x of None \<Rightarrow> Amount t | Some a \<Rightarrow> g a)\<rparr>"
  by (cases x) simp_all

lemma guarded_GasFeeCap:
  "(case x of None \<Rightarrow> t | Some a \<Rightarrow> t\<lparr>GasFeeCap := g a\<rparr>)
   = t\<lparr>GasFeeCap := (case x of None \<Rightarrow> GasFeeCap t | Some a \<Rightarrow> g a)\<rparr>"
  by (cases x) simp_all

lemma guarded_GasTipCap:
  "(case x of None \<Rightarrow> t | Some a \<Rightarrow> t\<lparr>GasTipCap := g a\<rparr>)
   = t\<lparr>GasTipCap := (case x of None \<Rightarrow> GasTipCap t | Some a \<Rightarrow> g a)\<rparr>"
  by (cases x) simp_all

lemma guarded_Accesses:
  "(case x of None \<Rightarrow> t | Some a \<Rightarrow> t\<lparr>Accesses := g a\<rparr>)
   = t\<lparr>Accesses := (case x of None \<Rightarrow> Accesses t | Some a \<Rightarrow> g a)\<rparr>"
  by (cases x) simp_all

lemma option_case_Some_id: "(case x of None \<Rightarrow> None | Some a \<Rightarrow> Some a) = x"
  by (cases x) simp_all

lemma newDynamicFeeTx_explicit:
  "newDynamicFeeTx K N e =
     \<lparr>ChainID = tx_ChainId e, Nonce = tx_Nonce e, GasTipCap = tx_GasTipCap e,
      GasFeeCap = tx_GasFeeCap e, GasLimit = tx_Gas e,
      To = (case tx_To e of None \<Rightarrow> [] | Some a \<Rightarrow> Hex K a),
      Amount = tx_Value e, Data = tx_Data e, Accesses = map_option N (tx_AccessList e),
      V = (case tx_V e of None \<Rightarrow> [] | Some v \<Rightarrow> Bytes v),
      R = (case tx_R e of None \<Rightarrow> [] | Some v \<Rightarrow> Bytes v),
      S = (case tx_S e of None \<Rightarrow> [] | Some v \<Rightarrow> Bytes v)\<rparr>"
  by (simp add: newDynamicFeeTx_def SetSignatureValues_explicit NewIntFromBigInt_def Let_def
      guarded_To guarded_Amount guarded_GasFeeCap guarded_GasTipCap guarded_Accesses
      option_case_Some_id map_option_case cong: option.case_cong)

lemma bytesNat_snoc: "bytesNat (bs @ [b]) = bytesNat bs * 256 + unat b"
  by (simp add: bytesNat_def)

lemma bytesNat_natBytes: "bytesNat (natBytes n) = n"
proof (induction n rule: natBytes.induct)
  case (1 n)
  show ?case
  proof (cases "n = 0")
    case True
    then show ?thesis by (simp add: natBytes.simps [of 0] bytesNat_def)
  next
    case False
    have u: "unat (of_nat (n mod 256) :: byte) = n mod 256"
      by (simp add: unat_of_nat)
    from False 1 have "bytesNat (natBytes (n div 256)) = n div 256" by simp
    with False u show ?thesis
      by (subst natBytes.simps) (simp add: bytesNat_snoc)
  qed
qed

lemma Bytes_of_nat: "Bytes (int n) = natBytes n"
  by (simp add: Bytes_def)

lemma Bytes_SetBytes_Bytes: "Bytes (BigInt_SetBytes (Bytes v)) = Bytes v"
  by (simp add: BigInt_SetBytes_def Bytes_def bytesNat_natBytes)

lemma Bytes_zero: "Bytes 0 = []"
  by (simp add: Bytes_def natBytes.simps [of 0])

lemma signature_field_roundtrip:
  "Bytes (orZero (if (case x of None \<Rightarrow> [] | Some v \<Rightarrow> Bytes v) = [] then None
                  else Some (BigInt_SetBytes (case x of None \<Rightarrow> [] | Some v \<Rightarrow> Bytes v))))
   = (case x of None \<Rightarrow> [] | Some v \<Rightarrow> Bytes v)"
  by (cases x) (simp_all add: orZero_def Bytes_SetBytes_Bytes Bytes_zero)


lemma newDynamicFeeTx_Accesses:
  "Accesses (newDynamicFeeTx K N e) = map_option N (tx_AccessList e)"
  by (simp add: newDynamicFeeTx_explicit)

lemma newDynamicFeeTx_Amount: "Amount (newDynamicFeeTx K N e) = tx_Value e"
  by (simp add: newDynamicFeeTx_explicit)

lemma NewTx_AsEthereumData_fields:
  "tx_AccessList (NewTx (AsEthereumData T t))
     = Some (case GetAccessList T t of None \<Rightarrow> [] | Some al \<Rightarrow> al)"
  "tx_Value (NewTx (AsEthereumData T t)) = Some (orZero (GetValue t))"
  by (simp_all add: NewTx_def AsEthereumData_def split: prod.splits)

text \<open>Every transaction that \<open>NewTx\<close> builds has all five optional fields.\<close>

lemma NewTx_fields_present:
  "tx_ChainId (NewTx d) \<noteq> None \<and> tx_Value (NewTx d) \<noteq> None
   \<and> tx_GasFeeCap (NewTx d) \<noteq> None \<and> tx_GasTipCap (NewTx d) \<noteq> None
   \<and> tx_AccessList (NewTx d) \<noteq> None"
  by (simp add: NewTx_def)

section \<open>Properties of the conversions\<close>

text \<open>
  C6. For every go-ethereum transaction \<open>e\<close>: without a recipient, the \<open>To\<close> field of
  \<open>newDynamicFeeTx e\<close> is the empty string and \<open>GetTo\<close> returns nil; where the value,
  the fee cap, the tip cap or the access list of \<open>e\<close> is nil, the field \<open>Amount\<close>,
  \<open>GasFeeCap\<close>, \<open>GasTipCap\<close> or \<open>Accesses\<close> is nil.
\<close>

theorem newDynamicFeeTx_keeps_absence:
  "(tx_To e = None \<longrightarrow>
      To (newDynamicFeeTx K N e) = [] \<and> GetTo (newDynamicFeeTx K N e) = None)
   \<and> (tx_Value e = None \<longrightarrow> Amount (newDynamicFeeTx K N e) = None)
   \<and> (tx_GasFeeCap e = None \<longrightarrow> GasFeeCap (newDynamicFeeTx K N e) = None)
   \<and> (tx_GasTipCap e = None \<longrightarrow> GasTipCap (newDynamicFeeTx K N e) = None)
   \<and> (tx_AccessList e = None \<longrightarrow> Accesses (newDynamicFeeTx K N e) = None)"
  by (simp add: newDynamicFeeTx_explicit GetTo_def)

text \<open>C6 on the transaction in which everything that can be absent is absent.\<close>

theorem newDynamicFeeTx_keeps_absence_witness:
  "tx_To absentEthTx = None \<and> tx_Value absentEthTx = None
   \<and> tx_GasFeeCap absentEthTx = None \<and> tx_GasTipCap absentEthTx = None
   \<and> tx_AccessList absentEthTx = None
   \<and> To (newDynamicFeeTx zeroDigest sameAccessList absentEthTx) = []
   \<and> GetTo (newDynamicFeeTx zeroDigest sameAccessList absentEthTx) = None
   \<and> Amount (newDynamicFeeTx zeroDigest sameAccessList absentEthTx) = None
   \<and> GasFeeCap (newDynamicFeeTx zeroDigest sameAccessList absentEthTx) = None
   \<and> GasTipCap (newDynamicFeeTx zeroDigest sameAccessList absentEthTx) = None
   \<and> Accesses (newDynamicFeeTx zeroDigest sameAccessList absentEthTx) = None"
  using newDynamicFeeTx_keeps_absence [of absentEthTx zeroDigest sameAccessList]
  by (simp add: absentEthTx_def)

text \<open>
  C10. \<open>GetTo\<close> has a result for every transaction: nil exactly for the empty \<open>To\<close>,
  and for every other string, well-formed or not, the address that \<open>HexToAddress\<close>
  makes of it, 20 bytes long. \<open>AsEthereumData\<close> passes that address on. The string
  \<^verbatim>\<open>not-an-address\<close>, which is no hex address, becomes the zero address.
\<close>

theorem GetTo_total:
  "(GetTo tx = None) = (To tx = [])
   \<and> (To tx \<noteq> [] \<longrightarrow>
        GetTo tx = Some (HexToAddress (To tx))
        \<and> length (HexToAddress (To tx)) = AddressLength)
   \<and> eth_To (AsEthereumData T tx) = GetTo tx
   \<and> \<not> IsHexAddress ''not-an-address''
   \<and> GetTo (tx\<lparr>To := ''not-an-address''\<rparr>) = Some (replicate 20 0)
   \<and> eth_To (AsEthereumData T (tx\<lparr>To := ''not-an-address''\<rparr>)) = Some (replicate 20 0)"
proof -
  have z: "HexToAddress ''not-an-address'' = replicate 20 0"
    by (simp add: HexToAddress_def FromHex_def fromHexChar_def BytesToAddress_def
        AddressLength_def)
  have n: "\<not> IsHexAddress ''not-an-address''"
    by (simp add: IsHexAddress_def isHex_def AddressLength_def)
  have e: "eth_To (AsEthereumData T t) = GetTo t" for t :: "('a, bytes) DynamicFeeTx"
    by (simp add: AsEthereumData_def split: prod.splits)
  show ?thesis
    using z n by (simp add: e GetTo_def length_BytesToAddress HexToAddress_def AddressLength_def)
qed

text \<open>C10 on a transaction whose \<open>To\<close> is a hex string of three digits.\<close>

theorem GetTo_total_witness:
  "To (exampleTx\<lparr>To := ''abc''\<rparr>) \<noteq> []
   \<and> GetTo (exampleTx\<lparr>To := ''abc''\<rparr>) = Some (replicate 18 0 @ [10, 188])
   \<and> length (replicate 18 0 @ [10, 188 :: byte]) = AddressLength"
proof -
  have h: "HexToAddress ''abc'' = replicate 18 0 @ [10, 188]"
    by (simp add: HexToAddress_def FromHex_def fromHexChar_def BytesToAddress_def
        AddressLength_def)
  show ?thesis
    using GetTo_total [of "exampleTx\<lparr>To := ''abc''\<rparr>" someAccessList] h
    by (simp add: AddressLength_def)
qed

text \<open>
  C1, as amended. Let \<open>e\<close> be a go-ethereum transaction whose chain ID, value, fee
  cap, tip cap and access list are not nil, as they are in every transaction that
  \<^verbatim>\<open>ethtypes.NewTx\<close> builds, and let \<open>t = newDynamicFeeTx e\<close>. Then converting \<open>t\<close> with
  \<open>AsEthereumData\<close>, making a transaction of the result with \<open>NewTx\<close> and converting
  that with \<open>newDynamicFeeTx\<close> gives \<open>t\<close> again, field for field, byte sequences by
  content. The recipient is an address of 20 bytes; of the two access-list conversions
  it is required that converting a converted list back and forth gives the converted
  list again.
\<close>

theorem newDynamicFeeTx_roundtrip_present:
  assumes "tx_ChainId e \<noteq> None" and "tx_Value e \<noteq> None" and "tx_GasFeeCap e \<noteq> None"
    and "tx_GasTipCap e \<noteq> None" and "tx_AccessList e \<noteq> None"
    and "\<forall>a. tx_To e = Some a \<longrightarrow> length a = AddressLength"
    and "\<forall>al. N (case T (N al) of None \<Rightarrow> [] | Some x \<Rightarrow> x) = N al"
  shows "newDynamicFeeTx K N (NewTx (AsEthereumData T (newDynamicFeeTx K N e)))
         = newDynamicFeeTx K N e"
proof -
  from assms obtain c val cap tip al where p: "tx_ChainId e = Some c" "tx_Value e = Some val"
    "tx_GasFeeCap e = Some cap" "tx_GasTipCap e = Some tip" "tx_AccessList e = Some al"
    by auto
  have to: "GetTo (newDynamicFeeTx K N e) = tx_To e"
    using assms(6)
    by (cases "tx_To e")
      (simp_all add: GetTo_def newDynamicFeeTx_explicit Hex_not_empty HexToAddress_Hex
        AddressLength_def)
  have again: "NewTx (AsEthereumData T (newDynamicFeeTx K N e)) =
     \<lparr>tx_Nonce = tx_Nonce e, tx_Data = tx_Data e, tx_Gas = tx_Gas e, tx_To = tx_To e,
      tx_Value = Some val, tx_GasFeeCap = Some cap, tx_GasTipCap = Some tip,
      tx_AccessList = Some (case T (N al) of None \<Rightarrow> [] | Some x \<Rightarrow> x),
      tx_ChainId = Some c,
      tx_V = Some (orZero (if (case tx_V e of None \<Rightarrow> [] | Some v \<Rightarrow> Bytes v) = [] then None
                else Some (BigInt_SetBytes (case tx_V e of None \<Rightarrow> [] | Some v \<Rightarrow> Bytes v)))),
      tx_R = Some (orZero (if (case tx_R e of None \<Rightarrow> [] | Some v \<Rightarrow> Bytes v) = [] then None
                else Some (BigInt_SetBytes (case tx_R e of None \<Rightarrow> [] | Some v \<Rightarrow> Bytes v)))),
      tx_S = Some (orZero (if (case tx_S e of None \<Rightarrow> [] | Some v \<Rightarrow> Bytes v) = [] then None
                else Some (BigInt_SetBytes (case tx_S e of None \<Rightarrow> [] | Some v \<Rightarrow> Bytes v))))\<rparr>"
    unfolding NewTx_def AsEthereumData_def to
    by (simp add: newDynamicFeeTx_explicit
        GetRawSignatureValues_def rawSignatureValues_def GetChainID_def GetNonce_def
        GetGasTipCap_def GetGasFeeCap_def GetGas_def GetValue_def GetData_def
        GetAccessList_def BigInt_def p orZero_def [of "Some _"])
  show ?thesis
    unfolding again
    by (simp add: newDynamicFeeTx_explicit p signature_field_roundtrip assms(7))
qed

text \<open>The amended C1 on a transaction with every field present.\<close>

theorem newDynamicFeeTx_roundtrip_present_witness:
  "tx_ChainId fullEthTx \<noteq> None \<and> tx_Value fullEthTx \<noteq> None
   \<and> tx_GasFeeCap fullEthTx \<noteq> None \<and> tx_GasTipCap fullEthTx \<noteq> None
   \<and> tx_AccessList fullEthTx \<noteq> None
   \<and> tx_To fullEthTx = Some (replicate 19 0 @ [171])
   \<and> length (replicate 19 0 @ [171 :: byte]) = AddressLength
   \<and> newDynamicFeeTx zeroDigest sameAccessList
        (NewTx (AsEthereumData someAccessList
          (newDynamicFeeTx zeroDigest sameAccessList fullEthTx)))
      = newDynamicFeeTx zeroDigest sameAccessList fullEthTx"
proof -
  have 1: "tx_ChainId fullEthTx \<noteq> None" "tx_Value fullEthTx \<noteq> None"
    "tx_GasFeeCap fullEthTx \<noteq> None" "tx_GasTipCap fullEthTx \<noteq> None"
    "tx_AccessList fullEthTx \<noteq> None"
    by (simp_all add: fullEthTx_def)
  have 2: "\<forall>a. tx_To fullEthTx = Some a \<longrightarrow> length a = AddressLength"
    by (simp add: fullEthTx_def AddressLength_def)
  have 3: "\<forall>al. sameAccessList
             (case someAccessList (sameAccessList al) of None \<Rightarrow> [] | Some x \<Rightarrow> x)
           = sameAccessList al"
    by (simp add: sameAccessList_def someAccessList_def)
  show ?thesis
    using newDynamicFeeTx_roundtrip_present [OF 1 2 3, of zeroDigest] 1
    by (simp add: fullEthTx_def AddressLength_def)
qed

text \<open>
  C1 as it is stated fails. For a transaction whose access list is nil, \<open>Accesses\<close> is
  nil after the first conversion and an empty list that is not nil after the second,
  because \<open>NewTx\<close> initialises the access list; for one whose value is nil, \<open>Amount\<close>
  is nil after the first conversion and zero after the second.
\<close>

theorem newDynamicFeeTx_roundtrip_counterexample:
  "newDynamicFeeTx zeroDigest sameAccessList
     (NewTx (AsEthereumData someAccessList
       (newDynamicFeeTx zeroDigest sameAccessList nilAccessListEthTx)))
   \<noteq> newDynamicFeeTx zeroDigest sameAccessList nilAccessListEthTx
   \<and> Accesses (newDynamicFeeTx zeroDigest sameAccessList nilAccessListEthTx) = None
   \<and> Accesses (newDynamicFeeTx zeroDigest sameAccessList
        (NewTx (AsEthereumData someAccessList
          (newDynamicFeeTx zeroDigest sameAccessList nilAccessListEthTx)))) = Some []
   \<and> newDynamicFeeTx zeroDigest sameAccessList
       (NewTx (AsEthereumData someAccessList
         (newDynamicFeeTx zeroDigest sameAccessList nilValueEthTx)))
     \<noteq> newDynamicFeeTx zeroDigest sameAccessList nilValueEthTx
   \<and> Amount (newDynamicFeeTx zeroDigest sameAccessList nilValueEthTx) = None
   \<and> Amount (newDynamicFeeTx zeroDigest sameAccessList
        (NewTx (AsEthereumData someAccessList
          (newDynamicFeeTx zeroDigest sameAccessList nilValueEthTx)))) = Some 0"
proof -
  have a1: "Accesses (newDynamicFeeTx zeroDigest sameAccessList nilAccessListEthTx) = None"
    by (simp add: newDynamicFeeTx_Accesses nilAccessListEthTx_def)
  have a2: "Accesses (newDynamicFeeTx zeroDigest sameAccessList
        (NewTx (AsEthereumData someAccessList
          (newDynamicFeeTx zeroDigest sameAccessList nilAccessListEthTx)))) = Some []"
    by (simp add: newDynamicFeeTx_Accesses newDynamicFeeTx_Amount NewTx_AsEthereumData_fields
        GetAccessList_def nilAccessListEthTx_def sameAccessList_def)
  have b1: "Amount (newDynamicFeeTx zeroDigest sameAccessList nilValueEthTx) = None"
    by (simp add: newDynamicFeeTx_Amount nilValueEthTx_def)
  have b2: "Amount (newDynamicFeeTx zeroDigest sameAccessList
        (NewTx (AsEthereumData someAccessList
          (newDynamicFeeTx zeroDigest sameAccessList nilValueEthTx)))) = Some 0"
    by (simp add: newDynamicFeeTx_Accesses newDynamicFeeTx_Amount NewTx_AsEthereumData_fields
        GetValue_def nilValueEthTx_def orZero_def)
  from a1 a2 have "newDynamicFeeTx zeroDigest sameAccessList
     (NewTx (AsEthereumData someAccessList
       (newDynamicFeeTx zeroDigest sameAccessList nilAccessListEthTx)))
   \<noteq> newDynamicFeeTx zeroDigest sameAccessList nilAccessListEthTx"
    by (metis option.distinct(1))
  moreover from b1 b2 have "newDynamicFeeTx zeroDigest sameAccessList
       (NewTx (AsEthereumData someAccessList
         (newDynamicFeeTx zeroDigest sameAccessList nilValueEthTx)))
     \<noteq> newDynamicFeeTx zeroDigest sameAccessList nilValueEthTx"
    by (metis option.distinct(1))
  ultimately show ?thesis using a1 a2 b1 b2 by simp
qed

section \<open>Copy\<close>

lemma content_append: "valid h s \<Longrightarrow> content (h @ k) s = content h s"
  by (cases s) (simp_all add: nth_append)

lemma valid_append: "valid h s \<Longrightarrow> valid (h @ k) s"
  by (cases s) (simp_all add: nth_append)

lemma fresh_append: "fresh (h @ k) s \<Longrightarrow> fresh h s"
  by (cases s) simp_all

lemma CopyBytes_Nil: "CopyBytes h NilSlice = (h, NilSlice)"
  by (simp add: CopyBytes_def)

lemma CopyBytes_Slice:
  "valid h (Slice a off n) \<Longrightarrow>
   CopyBytes h (Slice a off n) = (h @ [content h (Slice a off n)], Slice (length h) 0 n)"
  by (simp add: CopyBytes_def make_def nth_append min_def)

lemma CopyBytes_step:
  assumes "valid h s" and "CopyBytes h s = (h', c)"
  shows "\<exists>k. h' = h @ k" and "content h' c = content h s" and "fresh h c"
    and "valid h' c"
proof -
  show "valid h' c"
    using assms by (cases s) (auto simp add: CopyBytes_Nil CopyBytes_Slice)
  show "\<exists>k. h' = h @ k"
  proof (cases s)
    case NilSlice
    with assms have "h' = h @ []" by (simp add: CopyBytes_Nil)
    then show ?thesis ..
  next
    case (Slice a off n)
    with assms have "h' = h @ [content h (Slice a off n)]" by (simp add: CopyBytes_Slice)
    then show ?thesis ..
  qed
  show "content h' c = content h s"
    using assms by (cases s) (auto simp add: CopyBytes_Nil CopyBytes_Slice)
  show "fresh h c"
    using assms by (cases s) (auto simp add: CopyBytes_Nil CopyBytes_Slice)
qed

lemma setByte_fresh_keeps_valid:
  "fresh h sl \<Longrightarrow> valid h s \<Longrightarrow> setByte h' sl i x = Some h'' \<Longrightarrow>
   content h'' s = content h' s"
  by (cases sl; cases s) (auto split: if_splits)

lemma setByte_valid_keeps_fresh:
  "valid h sl \<Longrightarrow> fresh h s \<Longrightarrow> setByte h' sl i x = Some h'' \<Longrightarrow>
   content h'' s = content h' s"
  by (cases sl; cases s) (auto split: if_splits)

lemma Copy_facts:
  assumes "validTx h tx" and "Copy h tx = (h', c)"
  shows "\<exists>k. h' = h @ k"
    and "contentTx h' c = contentTx h tx"
    and "fresh h (Data c)" and "fresh h (V c)" and "fresh h (R c)" and "fresh h (S c)"
proof -
  obtain h1 d where s1: "CopyBytes h (Data tx) = (h1, d)" by (cases "CopyBytes h (Data tx)")
  obtain h2 v where s2: "CopyBytes h1 (V tx) = (h2, v)" by (cases "CopyBytes h1 (V tx)")
  obtain h3 r where s3: "CopyBytes h2 (R tx) = (h3, r)" by (cases "CopyBytes h2 (R tx)")
  obtain h4 s where s4: "CopyBytes h3 (S tx) = (h4, s)" by (cases "CopyBytes h3 (S tx)")
  from assms(2) s1 s2 s3 s4 have h': "h' = h4"
    and c: "Data c = d" "V c = v" "R c = r" "S c = s"
      "ChainID c = ChainID tx" "Nonce c = Nonce tx" "GasTipCap c = GasTipCap tx"
      "GasFeeCap c = GasFeeCap tx" "GasLimit c = GasLimit tx" "To c = To tx"
      "Amount c = Amount tx" "Accesses c = Accesses tx"
    by (auto simp add: Copy_def)
  from assms(1) have vd: "valid h (Data tx)" and vv: "valid h (V tx)"
    and vr: "valid h (R tx)" and vs: "valid h (S tx)"
    by (simp_all add: validTx_def)
  from CopyBytes_step [OF vd s1] obtain k1 where k1: "h1 = h @ k1"
    and cd: "content h1 d = content h (Data tx)" and fd: "fresh h d"
    and wd: "valid h1 d" by blast
  have vv1: "valid h1 (V tx)" using vv k1 by (simp add: valid_append)
  from CopyBytes_step [OF vv1 s2] obtain k2 where k2: "h2 = h1 @ k2"
    and cv: "content h2 v = content h1 (V tx)" and fv: "fresh h1 v"
    and wv: "valid h2 v" by blast
  have vr2: "valid h2 (R tx)" using vr k1 k2 by (simp add: valid_append)
  from CopyBytes_step [OF vr2 s3] obtain k3 where k3: "h3 = h2 @ k3"
    and cr: "content h3 r = content h2 (R tx)" and fr: "fresh h2 r"
    and wr: "valid h3 r" by blast
  have vs3: "valid h3 (S tx)" using vs k1 k2 k3 by (simp add: valid_append)
  from CopyBytes_step [OF vs3 s4] obtain k4 where k4: "h4 = h3 @ k4"
    and cs: "content h4 s = content h3 (S tx)" and fs: "fresh h3 s" by blast
  show "\<exists>k. h' = h @ k" using h' k1 k2 k3 k4 by simp
  show "fresh h (Data c)" using fd c by simp
  show "fresh h (V c)" using fv c k1 by (simp add: fresh_append)
  show "fresh h (R c)" using fr c k1 k2 by (metis fresh_append)
  show "fresh h (S c)" using fs c k1 k2 k3 by (metis fresh_append)
  have "content h4 d = content h (Data tx)"
    using cd wd k2 k3 k4 by (simp add: content_append)
  moreover have "content h4 v = content h (V tx)"
    using cv wv vv k1 k3 k4 by (simp add: content_append)
  moreover have "content h4 r = content h (R tx)"
    using cr wr vr vv1 k1 k2 k4 by (simp add: content_append valid_append)
  moreover have "content h4 s = content h (S tx)"
    using cs vs k1 k2 k3 by (simp add: content_append valid_append)
  ultimately show "contentTx h' c = contentTx h tx"
    using h' c by (simp add: contentTx_def)
qed

lemma contentTx_append: "validTx h tx \<Longrightarrow> contentTx (h @ k) tx = contentTx h tx"
  by (simp add: contentTx_def validTx_def content_append)


text \<open>
  C5. Let the byte slices of a transaction lie in the store, and let \<open>Copy\<close> return
  the store \<open>h'\<close> and the clone \<open>c\<close>. The clone equals the original field for field,
  byte slices by content, and copying has not changed what the original reads. Each
  byte slice of the clone is nil or lies in an array allocated by \<open>Copy\<close>. A write
  through any byte slice of the clone leaves every field of the original as it was, and
  a write through any byte slice of the original leaves every field of the clone as it
  was.
\<close>

theorem Copy_independent:
  assumes "validTx h tx" and "Copy h tx = (h', c)"
  shows "contentTx h' c = contentTx h tx
    \<and> contentTx h' tx = contentTx h tx
    \<and> fresh h (Data c) \<and> fresh h (V c) \<and> fresh h (R c) \<and> fresh h (S c)
    \<and> (\<forall>sl \<in> {Data c, V c, R c, S c}. \<forall>i x h''.
          setByte h' sl i x = Some h'' \<longrightarrow> contentTx h'' tx = contentTx h tx)
    \<and> (\<forall>sl \<in> {Data tx, V tx, R tx, S tx}. \<forall>i x h''.
          setByte h' sl i x = Some h'' \<longrightarrow> contentTx h'' c = contentTx h' c)"
proof -
  note f = Copy_facts [OF assms]
  from f(1) obtain k where k: "h' = h @ k" ..
  from assms(1) have v: "valid h (Data tx)" "valid h (V tx)" "valid h (R tx)" "valid h (S tx)"
    by (simp_all add: validTx_def)
  have orig: "contentTx h' tx = contentTx h tx"
    using k assms(1) by (simp add: contentTx_append)
  have clone_write: "contentTx h'' tx = contentTx h tx"
    if "fresh h sl" and "setByte h' sl i x = Some h''" for sl i x h''
  proof -
    have "content h'' s = content h' s" if "valid h s" for s
      using setByte_fresh_keeps_valid that \<open>fresh h sl\<close> \<open>setByte h' sl i x = Some h''\<close>
      by blast
    with v have "contentTx h'' tx = contentTx h' tx" by (simp add: contentTx_def)
    with orig show ?thesis by simp
  qed
  have orig_write: "contentTx h'' c = contentTx h' c"
    if "valid h sl" and "setByte h' sl i x = Some h''" for sl i x h''
  proof -
    have "content h'' s = content h' s" if "fresh h s" for s
      using setByte_valid_keeps_fresh that \<open>valid h sl\<close> \<open>setByte h' sl i x = Some h''\<close>
      by blast
    with f(3-6) show ?thesis by (simp add: contentTx_def)
  qed
  show ?thesis
    using f(2-6) orig clone_write orig_write v by blast
qed


text \<open>
  C5 on a store with two arrays: the clone's slices name three new arrays; a write
  through the clone's payload and a write through the original's payload each leave the
  other transaction unchanged.
\<close>

theorem Copy_independent_witness:
  "validTx copyStore copyTx
   \<and> Copy copyStore copyTx = (copiedStore, copyClone)
   \<and> contentTx copiedStore copyClone = contentTx copyStore copyTx
   \<and> setByte copiedStore (Data copyClone) 1 255 = Some cloneWrittenStore
   \<and> contentTx cloneWrittenStore copyTx = contentTx copyStore copyTx
   \<and> setByte copiedStore (Data copyTx) 0 9 = Some originalWrittenStore
   \<and> contentTx originalWrittenStore copyClone = contentTx copiedStore copyClone"
proof -
  have v: "validTx copyStore copyTx"
    by (simp add: validTx_def copyStore_def copyTx_def)
  have c: "Copy copyStore copyTx = (copiedStore, copyClone)"
    by (simp add: Copy_def CopyBytes_def make_def copyStore_def copyTx_def copiedStore_def
        copyClone_def)
  have w1: "setByte copiedStore (Data copyClone) 1 255 = Some cloneWrittenStore"
    by (simp add: copiedStore_def copyClone_def cloneWrittenStore_def)
  have w2: "setByte copiedStore (Data copyTx) 0 9 = Some originalWrittenStore"
    by (simp add: copiedStore_def copyTx_def originalWrittenStore_def)
  note th = Copy_independent [OF v c]
  from th w1 have "contentTx cloneWrittenStore copyTx = contentTx copyStore copyTx"
    by blast
  moreover from th w2
  have "contentTx originalWrittenStore copyClone = contentTx copiedStore copyClone"
    by blast
  ultimately show ?thesis using v c w1 w2 th by simp
qed

end
